theory Spec2Isabelle
  imports Complex_Main "HOL-Library.Log_Nat"
begin

section \<open>The page and its exceptions\<close>

text \<open>
  The script \<^verbatim>\<open>app.py\<close> is a Streamlit page: it runs top to bottom on every
  interaction, calls five functions of \<^verbatim>\<open>logic.py\<close> and shows their results.
  The part modelled here is the one after the digital-twin call (lines 81 to 131):
  choosing the burden of the target organ from the returned frame, asking for the
  histology image, and the counting challenge.

  Exceptions are values: a computation that may raise returns \<open>py_exn + 'a\<close>, with
  \<open>Inl\<close> carrying the exception.
\<close>

datatype py_exn =
  IndexError | KeyError | TypeError | ValueError | OverflowError | RuntimeError

section \<open>Python floats\<close>

text \<open>
  A Python float is an IEEE 754 binary64 number. \<open>Finite x\<close> is the double whose value
  is the real \<open>x\<close>, with \<open>Finite 0\<close> the positive zero and \<open>NegZero\<close> the negative
  one; only the reals that \<open>is_double\<close> accepts are values of doubles.
\<close>

datatype pyfloat = Finite real | NegZero | PosInf | NegInf | NaN

text \<open>Rounding to the nearest integer, a tie going to the even neighbour.\<close>

definition round_half_even :: "real \<Rightarrow> int" where
  "round_half_even x =
     (let f = \<lfloor>x\<rfloor>; d = x - of_int f
      in if d < 1 / 2 then f
         else if 1 / 2 < d then f + 1
         else if even f then f else f + 1)"

text \<open>The binary exponent of a real other than 0: the \<open>e\<close> with
  \<open>2 ^ e \<le> \<bar>x\<bar> < 2 ^ (e + 1)\<close>.\<close>

definition bit_exponent :: "real \<Rightarrow> int" where
  "bit_exponent x =
     (if 1 \<le> \<bar>x\<bar> then bitlen \<lfloor>\<bar>x\<bar>\<rfloor> - 1 else - bitlen (\<lceil>1 / \<bar>x\<bar>\<rceil> - 1))"

definition pow2 :: "int \<Rightarrow> real" where
  "pow2 k = (if 0 \<le> k then 2 ^ nat k else 1 / 2 ^ nat (- k))"

text \<open>The distance between neighbouring doubles around \<open>x\<close>: 53 significant bits,
  and the fixed spacing \<open>2 ^ - 1074\<close> below the smallest normal number.\<close>

definition ulp :: "real \<Rightarrow> real" where
  "ulp x = pow2 (max (bit_exponent x) (- 1022) - 52)"

text \<open>Round to nearest, ties to the even significand: the rounding of every
  arithmetic operation and conversion. The result may lie beyond the largest double;
  then the operation overflows. A negative value that rounds to zero gives the
  negative zero.\<close>

definition round_nearest_even :: "real \<Rightarrow> real" where
  "round_nearest_even x =
     (if x = 0 then 0
      else sgn x * (of_int (round_half_even (\<bar>x\<bar> / ulp x)) * ulp x))"

definition to_double :: "real \<Rightarrow> pyfloat" where
  "to_double x =
     (let y = round_nearest_even x
      in if 2 ^ 1024 \<le> y then PosInf
         else if y \<le> - (2 ^ 1024) then NegInf
         else if y = 0 \<and> x < 0 then NegZero
         else Finite y)"

definition is_double :: "real \<Rightarrow> bool" where
  "is_double x = (to_double x = Finite x)"

text \<open>\<^verbatim>\<open>float(i)\<close> for an int: the nearest double, OverflowError when that is beyond
  the largest double.\<close>

definition float_of_int :: "int \<Rightarrow> py_exn + pyfloat" where
  "float_of_int i =
     (case to_double (of_int i) of
        Finite y \<Rightarrow> Inr (Finite y)
      | NegZero \<Rightarrow> Inr NegZero
      | PosInf \<Rightarrow> Inl OverflowError
      | NegInf \<Rightarrow> Inl OverflowError
      | NaN \<Rightarrow> Inl OverflowError)"

text \<open>The difference of two floats. An exact zero result is the positive zero, but
  \<^verbatim>\<open>-0.0 - 0.0\<close> is the negative one.\<close>

fun float_sub :: "pyfloat \<Rightarrow> pyfloat \<Rightarrow> pyfloat" where
  "float_sub (Finite a) (Finite b) = to_double (a - b)"
| "float_sub (Finite a) NegZero = Finite a"
| "float_sub NegZero (Finite b) = (if b = 0 then NegZero else to_double (- b))"
| "float_sub NegZero NegZero = Finite 0"
| "float_sub NaN y = NaN"
| "float_sub x NaN = NaN"
| "float_sub PosInf PosInf = NaN"
| "float_sub NegInf NegInf = NaN"
| "float_sub PosInf y = PosInf"
| "float_sub NegInf y = NegInf"
| "float_sub x PosInf = NegInf"
| "float_sub x NegInf = PosInf"

fun float_abs :: "pyfloat \<Rightarrow> pyfloat" where
  "float_abs (Finite x) = Finite \<bar>x\<bar>"
| "float_abs NegZero = Finite 0"
| "float_abs PosInf = PosInf"
| "float_abs NegInf = PosInf"
| "float_abs NaN = NaN"

text \<open>
  \<^verbatim>\<open>round(x, 2)\<close> for a float: the value of \<open>x\<close> is rounded to two decimals, a tie
  going to the even digit, and the double nearest to that decimal is returned, with
  the sign of \<open>x\<close> (OverflowError when there is none); the zeros, NaN and the infinities
  are returned as they are.
\<close>

fun float_round2 :: "pyfloat \<Rightarrow> py_exn + pyfloat" where
  "float_round2 (Finite x) =
     (let k = round_half_even (x * 100)
      in if k = 0 \<and> x < 0 then Inr NegZero
         else (case to_double (of_int k / 100) of
                 Finite y \<Rightarrow> Inr (Finite y)
               | NegZero \<Rightarrow> Inr NegZero
               | PosInf \<Rightarrow> Inl OverflowError
               | NegInf \<Rightarrow> Inl OverflowError
               | NaN \<Rightarrow> Inl OverflowError))"
| "float_round2 NegZero = Inr NegZero"
| "float_round2 PosInf = Inr PosInf"
| "float_round2 NegInf = Inr NegInf"
| "float_round2 NaN = Inr NaN"

text \<open>\<^verbatim>\<open>x < n\<close> for a float and an int: exact, and false for NaN.\<close>

fun float_less_int :: "pyfloat \<Rightarrow> int \<Rightarrow> bool" where
  "float_less_int (Finite x) n = (x < of_int n)"
| "float_less_int NegZero n = (0 < n)"
| "float_less_int PosInf n = False"
| "float_less_int NegInf n = True"
| "float_less_int NaN n = False"

section \<open>Python values\<close>

text \<open>
  A Python value as the script observes it: an int (a bool counts as the int it
  equals, a numpy integer as its value), a float, a str, or None. In a cell of the
  burdens frame the script only compares the value with the str \<^verbatim>\<open>"Liver"\<close> and
  applies \<^verbatim>\<open>float()\<close> to it; there a value that \<^verbatim>\<open>float()\<close> converts without
  being an int (a str such as \<^verbatim>\<open>"12.5"\<close> or \<^verbatim>\<open>"nan"\<close>, a numpy float) is written as
  the \<open>PyFloat\<close> it converts to, which both operations treat alike; \<open>PyStr\<close> stands
  for every other str, and \<open>PyNone\<close> also for the other objects that \<^verbatim>\<open>float()\<close>
  rejects with TypeError.
\<close>

datatype pyval = PyInt int | PyFloat pyfloat | PyStr string | PyNone

fun py_float :: "pyval \<Rightarrow> py_exn + pyfloat" where
  "py_float (PyInt i) = float_of_int i"
| "py_float (PyFloat x) = Inr x"
| "py_float (PyStr s) = Inl ValueError"
| "py_float PyNone = Inl TypeError"

definition bind_exn :: "'e + 'a \<Rightarrow> ('a \<Rightarrow> 'e + 'b) \<Rightarrow> 'e + 'b" where
  "bind_exn m f = (case m of Inl e \<Rightarrow> Inl e | Inr a \<Rightarrow> f a)"

section \<open>The burdens frame\<close>

text \<open>
  A pandas DataFrame with unique column labels (as one built from a dict of columns):
  the labels, and the rows, each row giving the cell of every column. A row's value
  at a label that is not a column is never read.
\<close>

record DataFrame =
  columns :: "string list"
  rows :: "(string \<Rightarrow> pyval) list"

text \<open>\<^verbatim>\<open>df[c]\<close>: the column as a Series, KeyError when there is no such column.\<close>

definition df_getitem :: "DataFrame \<Rightarrow> string \<Rightarrow> py_exn + pyval list" where
  "df_getitem df c =
     (if c \<in> set (columns df) then Inr (map (\<lambda>r. r c) (rows df)) else Inl KeyError)"

text \<open>\<^verbatim>\<open>df.loc[mask, c]\<close> with a boolean mask: the cells of column \<open>c\<close> in the rows
  where the mask holds, in row order.\<close>

definition df_loc :: "DataFrame \<Rightarrow> bool list \<Rightarrow> string \<Rightarrow> py_exn + pyval list" where
  "df_loc df sel c =
     (if c \<in> set (columns df)
      then Inr (map (\<lambda>(m, r). r c) (filter fst (zip sel (rows df))))
      else Inl KeyError)"

text \<open>\<^verbatim>\<open>s.values[0]\<close> and \<^verbatim>\<open>s.iloc[0]\<close>: IndexError on an empty Series.\<close>

definition item0 :: "pyval list \<Rightarrow> py_exn + pyval" where
  "item0 xs = (case xs of [] \<Rightarrow> Inl IndexError | x # _ \<Rightarrow> Inr x)"

section \<open>What the page shows and calls\<close>

datatype ui_event =
    St_header string
  | St_subheader string
  | St_error string
  | St_error_image string py_exn
  | St_error_cnn py_exn
  | St_image string pyfloat
  | St_write_human int
  | St_write_cnn pyval
  | St_error_abs pyval
  | St_balloons
  | St_success string
  | St_warning string
  | Call_get_histology_image string pyfloat
  | Call_image_open string
  | Call_run_cnn_inference string

text \<open>How a run of the script ends: at its last line, at \<^verbatim>\<open>st.stop()\<close>, or with
  an exception that no handler caught (Streamlit then shows it on the page).\<close>

datatype status = Finished | Stopped | Uncaught py_exn

text \<open>
  The functions of \<^verbatim>\<open>logic.py\<close> that the modelled lines call, and the two widget
  values of the run. \<open>image_open\<close> stands for lines 103 and 104 (opening the file and
  showing the image), which fail together with whatever exception either raises.
  \<^verbatim>\<open>st.number_input(min_value=0, step=1, value=0)\<close> returns an int that is at
  least 0.
\<close>

record env =
  get_histology_image :: "string \<Rightarrow> pyfloat \<Rightarrow> py_exn + string"
  image_open :: "string \<Rightarrow> py_exn + unit"
  run_cnn_inference :: "string \<Rightarrow> py_exn + pyval"
  human_guess :: int
  button_run_cnn :: bool

section \<open>Step 5: the burden of the target organ (lines 84 to 94)\<close>

definition target_organ :: string where
  "target_organ = ''Liver''"

text \<open>Line 88:
  \<^verbatim>\<open>float(burdens_df.loc[burdens_df['Organ'] == target_organ, 'Microplastic_Count'].values[0])\<close>\<close>

definition organ_lookup :: "DataFrame \<Rightarrow> py_exn + pyfloat" where
  "organ_lookup burdens_df =
     bind_exn (df_getitem burdens_df ''Organ'') (\<lambda>organ_col.
     bind_exn (df_loc burdens_df (map (\<lambda>v. v = PyStr target_organ) organ_col)
                 ''Microplastic_Count'') (\<lambda>sel.
     bind_exn (item0 sel) py_float))"

text \<open>Line 91: \<^verbatim>\<open>float(burdens_df['Microplastic_Count'].iloc[0])\<close>\<close>

definition first_row_lookup :: "DataFrame \<Rightarrow> py_exn + pyfloat" where
  "first_row_lookup burdens_df =
     bind_exn (df_getitem burdens_df ''Microplastic_Count'') (\<lambda>col.
     bind_exn (item0 col) py_float)"

definition format_error_message :: string where
  "format_error_message =
     ''Unexpected format for burdens_df. Expected columns: 'Organ' and 'Microplastic_Count'.''"

text \<open>
  Lines 86 to 94. The \<^verbatim>\<open>try\<close> covers line 88 only; the fallback of line 91 runs
  inside the handler, so an exception it raises is not caught. The result is what was
  shown, and either the burden (\<open>Inr\<close>) or how the run ended (\<open>Inl\<close>).
\<close>

definition select_burden :: "DataFrame \<Rightarrow> ui_event list \<times> (status + pyfloat)" where
  "select_burden burdens_df =
     (if ''Organ'' \<in> set (columns burdens_df)
         \<and> ''Microplastic_Count'' \<in> set (columns burdens_df)
      then (case organ_lookup burdens_df of
              Inr burden \<Rightarrow> ([], Inr burden)
            | Inl _ \<Rightarrow>
                (case first_row_lookup burdens_df of
                   Inr burden \<Rightarrow> ([], Inr burden)
                 | Inl e \<Rightarrow> ([], Inl (Uncaught e))))
      else ([St_error format_error_message], Inl Stopped))"

section \<open>The counting challenge (lines 108 to 131)\<close>

text \<open>
  The count is a Python int or a Python float. The difference of two ints is an int
  and exact. For a float count the guess is converted with \<^verbatim>\<open>float()\<close> first and
  the difference is the float difference. Anything else raises TypeError.
\<close>

datatype pynum = NInt int | NFloat pyfloat

fun int_sub :: "int \<Rightarrow> pyval \<Rightarrow> py_exn + pynum" where
  "int_sub h (PyInt c) = Inr (NInt (h - c))"
| "int_sub h (PyFloat c) =
     bind_exn (float_of_int h) (\<lambda>hf. Inr (NFloat (float_sub hf c)))"
| "int_sub h (PyStr s) = Inl TypeError"
| "int_sub h PyNone = Inl TypeError"

fun py_abs :: "pynum \<Rightarrow> pynum" where
  "py_abs (NInt i) = NInt \<bar>i\<bar>"
| "py_abs (NFloat x) = NFloat (float_abs x)"

text \<open>\<^verbatim>\<open>round(error, 2)\<close>: an int is returned as it is, a float is rounded to two
  decimals.\<close>

fun py_round2 :: "pynum \<Rightarrow> py_exn + pynum" where
  "py_round2 (NInt i) = Inr (NInt i)"
| "py_round2 (NFloat x) = bind_exn (float_round2 x) (\<lambda>y. Inr (NFloat y))"

text \<open>\<^verbatim>\<open>error < 5\<close>\<close>

fun py_less_int :: "pynum \<Rightarrow> int \<Rightarrow> bool" where
  "py_less_int (NInt i) n = (i < n)"
| "py_less_int (NFloat x) n = float_less_int x n"

fun pyval_of_num :: "pynum \<Rightarrow> pyval" where
  "pyval_of_num (NInt i) = PyInt i"
| "pyval_of_num (NFloat x) = PyFloat x"

definition success_message :: string where
  "success_message = ''Great job! You are as accurate as the AI.''"

definition warning_message :: string where
  "warning_message =
     ''The CNN detected particles that might be too small for the human eye.''"

text \<open>Lines 120 to 131, for the value \<open>cnn_count\<close> that line 115 or line 118 left. An
  exception of line 124 or of the rounding on line 125 is not caught.\<close>

definition report_count :: "int \<Rightarrow> pyval \<Rightarrow> ui_event list \<times> status" where
  "report_count guess cnn_count =
     (if cnn_count = PyNone then ([], Finished)
      else (case int_sub guess cnn_count of
              Inl e \<Rightarrow> ([St_write_human guess, St_write_cnn cnn_count], Uncaught e)
            | Inr d \<Rightarrow>
                (let error = py_abs d in
                 (case py_round2 error of
                    Inl e \<Rightarrow> ([St_write_human guess, St_write_cnn cnn_count], Uncaught e)
                  | Inr shown \<Rightarrow>
                      ([St_write_human guess, St_write_cnn cnn_count,
                        St_error_abs (pyval_of_num shown)]
                       @ (if py_less_int error 5
                          then [St_balloons, St_success success_message]
                          else [St_warning warning_message]),
                       Finished)))))"

text \<open>Lines 108 to 131.\<close>

definition counting_challenge :: "env \<Rightarrow> string \<Rightarrow> ui_event list \<times> status" where
  "counting_challenge e img_path =
     (if button_run_cnn e
      then (case run_cnn_inference e img_path of
              Inl ex \<Rightarrow>
                ([St_subheader ''Counting Challenge'', Call_run_cnn_inference img_path,
                  St_error_cnn ex], Finished)
            | Inr cnn_count \<Rightarrow>
                (let (shown, st) = report_count (human_guess e) cnn_count
                 in ([St_subheader ''Counting Challenge'',
                      Call_run_cnn_inference img_path] @ shown, st)))
      else ([St_subheader ''Counting Challenge''], Finished))"

section \<open>Steps 5 and 6 together (lines 81 to 131)\<close>

text \<open>Lines 100 to 106: the image column.\<close>

definition show_image :: "env \<Rightarrow> string \<Rightarrow> pyfloat \<Rightarrow> ui_event list" where
  "show_image e img_path burden =
     [St_subheader (''Synthetic '' @ target_organ @ '' Section''), Call_image_open img_path]
     @ (case image_open e img_path of
          Inr _ \<Rightarrow> [St_image img_path burden]
        | Inl ex \<Rightarrow> [St_error_image img_path ex])"

definition histology_analysis :: "env \<Rightarrow> DataFrame \<Rightarrow> ui_event list \<times> status" where
  "histology_analysis e burdens_df =
     (case select_burden burdens_df of
        (shown, Inl st) \<Rightarrow>
          (St_header ''3. Histology Analysis (AI vs Human)'' # shown, st)
      | (shown, Inr burden) \<Rightarrow>
          (case get_histology_image e target_organ burden of
             Inl ex \<Rightarrow>
               (St_header ''3. Histology Analysis (AI vs Human)'' # shown
                @ [Call_get_histology_image target_organ burden], Uncaught ex)
           | Inr img_path \<Rightarrow>
               (let (shown2, st) = counting_challenge e img_path
                in (St_header ''3. Histology Analysis (AI vs Human)'' # shown
                    @ [Call_get_histology_image target_organ burden]
                    @ show_image e img_path burden @ shown2, st))))"

text \<open>The calls to \<^verbatim>\<open>logic.py\<close> that a run made.\<close>

fun is_logic_call :: "ui_event \<Rightarrow> bool" where
  "is_logic_call (Call_get_histology_image organ burden) = True"
| "is_logic_call (Call_run_cnn_inference img_path) = True"
| "is_logic_call ev = False"

text \<open>The burdens passed to \<^verbatim>\<open>get_histology_image\<close> in a run, with the organ.\<close>

fun histology_calls :: "ui_event list \<Rightarrow> (string \<times> pyfloat) list" where
  "histology_calls [] = []"
| "histology_calls (Call_get_histology_image organ burden # evs) =
     (organ, burden) # histology_calls evs"
| "histology_calls (ev # evs) = histology_calls evs"

text \<open>The first row of the frame whose \<^verbatim>\<open>Organ\<close> cell is the target organ.\<close>

definition first_organ_row :: "DataFrame \<Rightarrow> (string \<Rightarrow> pyval) option" where
  "first_organ_row df = find (\<lambda>r. r ''Organ'' = PyStr target_organ) (rows df)"

section \<open>The accumulation simulator\<close>

text \<open>
  The exposure results as the page reads them on lines 68 to 70: three entries, each a
  dict from an exposure source to a particle count, summed with
  \<^verbatim>\<open>sum(exposure_results['oral_total'].values())\<close>. An entry that is missing is
  \<open>None\<close>.
\<close>

datatype route = Oral | Inhalation | Dermal

type_synonym source_counts = "(string \<times> int) list"

record ExposureTotals =
  oral_total :: "source_counts option"
  inhalation_total :: "source_counts option"
  dermal_total :: "source_counts option"

definition sum_values :: "source_counts \<Rightarrow> int" where
  "sum_values d = sum_list (map snd d)"

fun route_entry :: "ExposureTotals \<Rightarrow> route \<Rightarrow> source_counts option" where
  "route_entry x Oral = oral_total x"
| "route_entry x Inhalation = inhalation_total x"
| "route_entry x Dermal = dermal_total x"

definition all_routes :: "route list" where
  "all_routes = [Oral, Inhalation, Dermal]"

datatype sim_error = InvalidInput | ConfigurationError

text \<open>
  Modelled from the spec: the parameter table of the simulator, which
  \<^verbatim>\<open>logic.py\<close> (not among the sources) would hold. It gives the organs of the
  model, for each route and organ the fraction of the route's particles that reaches
  the organ (\<open>None\<close> where it is not given), and for each organ the retention factor
  (\<open>None\<close> where the burden is not scaled).
\<close>

record OrganParams =
  organs :: "string list"
  fraction :: "route \<Rightarrow> string \<Rightarrow> real option"
  retention :: "string \<Rightarrow> real option"

definition fully_specified :: "OrganParams \<Rightarrow> bool" where
  "fully_specified p =
     list_all (\<lambda>organ. list_all (\<lambda>r. fraction p r organ \<noteq> None) all_routes) (organs p)"

definition fractions_nonneg :: "OrganParams \<Rightarrow> bool" where
  "fractions_nonneg p =
     list_all (\<lambda>organ.
        list_all (\<lambda>r. case fraction p r organ of None \<Rightarrow> True | Some f \<Rightarrow> 0 \<le> f) all_routes
        \<and> (case retention p organ of None \<Rightarrow> True | Some k \<Rightarrow> 0 \<le> k)) (organs p)"

definition route_total :: "ExposureTotals \<Rightarrow> route \<Rightarrow> int option" where
  "route_total x r = map_option sum_values (route_entry x r)"

definition valid_totals :: "ExposureTotals \<Rightarrow> bool" where
  "valid_totals x =
     list_all (\<lambda>r. case route_total x r of None \<Rightarrow> False | Some t \<Rightarrow> 0 \<le> t) all_routes"

definition total_of :: "ExposureTotals \<Rightarrow> route \<Rightarrow> real" where
  "total_of x r = (case route_total x r of None \<Rightarrow> 0 | Some t \<Rightarrow> of_int t)"

definition coefficient :: "OrganParams \<Rightarrow> route \<Rightarrow> string \<Rightarrow> real" where
  "coefficient p r organ = (case fraction p r organ of None \<Rightarrow> 0 | Some f \<Rightarrow> f)"

definition retention_factor :: "OrganParams \<Rightarrow> string \<Rightarrow> real" where
  "retention_factor p organ = (case retention p organ of None \<Rightarrow> 1 | Some k \<Rightarrow> k)"

definition organ_burden :: "OrganParams \<Rightarrow> ExposureTotals \<Rightarrow> string \<Rightarrow> real" where
  "organ_burden p x organ =
     sum_list (map (\<lambda>r. total_of x r * coefficient p r organ) all_routes)
     * retention_factor p organ"

text \<open>
  Modelled from the spec: \<^verbatim>\<open>run_digital_twin\<close> is defined in \<^verbatim>\<open>logic.py\<close>,
  which is not among the sources; only its call on line 78 is. The definition follows
  section 4.1 of the specification: the input must be present, with every route total
  present and not negative (InvalidInput otherwise); the parameter table must give a
  fraction for every route and organ (ConfigurationError otherwise); the burden of an
  organ is the sum over the routes of route total times fraction, scaled by the
  organ's retention factor where there is one; the table has one row per organ. The
  specification does not say which error wins when both apply: here the input is
  checked first.
\<close>

definition run_digital_twin ::
  "OrganParams \<Rightarrow> ExposureTotals option \<Rightarrow> sim_error + (string \<times> real) list" where
  "run_digital_twin p exposure_data =
     (case exposure_data of
        None \<Rightarrow> Inl InvalidInput
      | Some x \<Rightarrow>
          if \<not> valid_totals x then Inl InvalidInput
          else if \<not> fully_specified p then Inl ConfigurationError
          else Inr (map (\<lambda>organ. (organ, organ_burden p x organ)) (organs p)))"

section \<open>Example inputs\<close>

definition example_env :: env where
  "example_env =
     \<lparr> get_histology_image = (\<lambda>organ burden. Inr ''liver_low.png''),
       image_open = (\<lambda>path. Inr ()),
       run_cnn_inference = (\<lambda>path. Inr (PyInt 12)),
       human_guess = 9,
       button_run_cnn = True \<rparr>"

definition row_of :: "pyval \<Rightarrow> pyval \<Rightarrow> string \<Rightarrow> pyval" where
  "row_of organ count c =
     (if c = ''Organ'' then organ else if c = ''Microplastic_Count'' then count else PyNone)"

definition frame_without_organ :: DataFrame where
  "frame_without_organ =
     \<lparr> columns = [''Tissue'', ''Microplastic_Count''],
       rows = [row_of PyNone (PyFloat (Finite 3))] \<rparr>"

definition frame_with_liver :: DataFrame where
  "frame_with_liver =
     \<lparr> columns = [''Organ'', ''Microplastic_Count''],
       rows = [row_of (PyStr ''Lung'') (PyFloat (Finite 5)),
               row_of (PyStr ''Liver'') (PyFloat (Finite (15 / 2))),
               row_of (PyStr ''Liver'') (PyInt 9)] \<rparr>"

definition frame_without_liver :: DataFrame where
  "frame_without_liver =
     \<lparr> columns = [''Organ'', ''Microplastic_Count''],
       rows = [row_of (PyStr ''Lung'') (PyInt 5),
               row_of (PyStr ''Kidney'') (PyFloat (Finite 2))] \<rparr>"

definition frame_text_count :: DataFrame where
  "frame_text_count =
     \<lparr> columns = [''Organ'', ''Microplastic_Count''],
       rows = [row_of (PyStr ''Lung'') (PyStr ''high'')] \<rparr>"

text \<open>A frame whose liver count is the int \<open>2 ^ 53 + 1\<close>, which is not a double.\<close>

definition frame_big_count :: DataFrame where
  "frame_big_count =
     \<lparr> columns = [''Organ'', ''Microplastic_Count''],
       rows = [row_of (PyStr ''Liver'') (PyInt 9007199254740993)] \<rparr>"

definition env_float_count :: env where
  "env_float_count =
     \<lparr> get_histology_image = (\<lambda>organ burden. Inr ''liver_low.png''),
       image_open = (\<lambda>path. Inr ()),
       run_cnn_inference = (\<lambda>path. Inr (PyFloat (Finite (1025 / 512)))),
       human_guess = 2,
       button_run_cnn = True \<rparr>"

text \<open>The guess 5 against the float count \<open>2 ^ - 60\<close>.\<close>

definition env_tiny_count :: env where
  "env_tiny_count =
     \<lparr> get_histology_image = (\<lambda>organ burden. Inr ''liver_low.png''),
       image_open = (\<lambda>path. Inr ()),
       run_cnn_inference = (\<lambda>path. Inr (PyFloat (Finite (1 / 2 ^ 60)))),
       human_guess = 5,
       button_run_cnn = True \<rparr>"

text \<open>A parameter table in which the liver receives 40% of the oral and 10% of the
  inhaled particles, as in the scenario of section 8 of the specification.\<close>

definition example_params :: OrganParams where
  "example_params =
     \<lparr> organs = [''Liver'', ''Lung''],
       fraction = (\<lambda>r organ.
          if organ = ''Liver''
          then (case r of Oral \<Rightarrow> Some (2 / 5) | Inhalation \<Rightarrow> Some (1 / 10) | Dermal \<Rightarrow> Some 0)
          else if organ = ''Lung''
          then (case r of Oral \<Rightarrow> Some 0 | Inhalation \<Rightarrow> Some (1 / 2) | Dermal \<Rightarrow> Some 0)
          else None),
       retention = (\<lambda>organ. if organ = ''Lung'' then Some (1 / 2) else None) \<rparr>"

text \<open>A fully specified table with a negative retention factor.\<close>

definition negative_retention_params :: OrganParams where
  "negative_retention_params =
     \<lparr> organs = [''Liver''],
       fraction = (\<lambda>r organ. Some (1 / 2)),
       retention = (\<lambda>organ. Some (- 1)) \<rparr>"

definition zero_exposure :: ExposureTotals where
  "zero_exposure =
     \<lparr> oral_total = Some [(''food_a'', 0)],
       inhalation_total = Some [(''air_a'', 0)],
       dermal_total = Some [] \<rparr>"

definition scenario_exposure :: ExposureTotals where
  "scenario_exposure =
     \<lparr> oral_total = Some [(''food_a'', 100)],
       inhalation_total = Some [(''air_a'', 50)],
       dermal_total = Some [] \<rparr>"

section \<open>The float model rounds to a nearest double\<close>

text \<open>
  Two checks of the model of binary64: \<open>bit_exponent\<close> is the binary exponent, and
  \<open>round_nearest_even\<close> moves a real by at most half the spacing of the doubles
  around it.
\<close>

lemma pow2_pos: "0 < pow2 k"
  by (simp add: pow2_def)

lemma pow2_nat: "0 \<le> k \<Longrightarrow> pow2 k = 2 ^ nat k"
  by (simp add: pow2_def)

lemma bit_exponent_bounds:
  assumes "x \<noteq> 0"
  shows "pow2 (bit_exponent x) \<le> \<bar>x\<bar> \<and> \<bar>x\<bar> < pow2 (bit_exponent x + 1)"
proof (cases "1 \<le> \<bar>x\<bar>")
  case True
  define n where "n = \<lfloor>\<bar>x\<bar>\<rfloor>"
  have n: "0 < n" "of_int n \<le> \<bar>x\<bar>" "\<bar>x\<bar> < of_int n + 1"
    using True by (auto simp: n_def)
  have k: "1 \<le> bitlen n"
    using n(1) by (simp add: bitlen_alt_def)
  have b: "2 ^ nat (bitlen n - 1) \<le> n" "n < 2 ^ nat (bitlen n)"
    using bitlen_bounds [OF n(1)] by simp_all
  have e: "bit_exponent x = bitlen n - 1"
    using True by (simp add: bit_exponent_def n_def)
  have lo: "pow2 (bitlen n - 1) \<le> \<bar>x\<bar>"
  proof -
    have "pow2 (bitlen n - 1) = of_int (2 ^ nat (bitlen n - 1))"
      using k by (simp add: pow2_def)
    also have "\<dots> \<le> of_int n"
      using b(1) by (simp only: of_int_le_iff)
    finally show ?thesis using n(2) by linarith
  qed
  have hi: "\<bar>x\<bar> < pow2 (bitlen n - 1 + 1)"
  proof -
    have "n + 1 \<le> 2 ^ nat (bitlen n)"
      using b(2) by simp
    then have "(of_int (n + 1) :: real) \<le> of_int (2 ^ nat (bitlen n))"
      by (simp only: of_int_le_iff)
    moreover have "pow2 (bitlen n - 1 + 1) = of_int (2 ^ nat (bitlen n))"
      using k by (simp add: pow2_def)
    ultimately show ?thesis using n(3) by simp
  qed
  show ?thesis using lo hi e by simp
next
  case False
  define q where "q = 1 / \<bar>x\<bar>"
  define m where "m = \<lceil>q\<rceil> - 1"
  have ax: "0 < \<bar>x\<bar>" "\<bar>x\<bar> < 1"
    using assms False by simp_all
  have q1: "1 < q"
    using ax by (simp add: q_def)
  have m: "0 < m" "of_int m < q" "q \<le> of_int m + 1"
    using q1 by (auto simp: m_def less_ceiling_iff ceiling_correct)
  have k: "1 \<le> bitlen m"
    using m(1) by (simp add: bitlen_alt_def)
  have b: "2 ^ nat (bitlen m - 1) \<le> m" "m < 2 ^ nat (bitlen m)"
    using bitlen_bounds [OF m(1)] by simp_all
  have e: "bit_exponent x = - bitlen m"
    using False by (simp add: bit_exponent_def m_def q_def)
  have x: "\<bar>x\<bar> = 1 / q"
    using ax by (simp add: q_def)
  have up: "q \<le> 2 ^ nat (bitlen m)"
  proof -
    have "m + 1 \<le> 2 ^ nat (bitlen m)" using b(2) by simp
    then have "(of_int (m + 1) :: real) \<le> of_int (2 ^ nat (bitlen m))"
      by (simp only: of_int_le_iff)
    then show ?thesis using m(3) by simp
  qed
  have low: "2 ^ nat (bitlen m - 1) < q"
  proof -
    have "(2 ^ nat (bitlen m - 1) :: real) \<le> of_int m"
    proof -
      have "(of_int (2 ^ nat (bitlen m - 1)) :: real) \<le> of_int m"
        using b(1) by (rule of_int_le_iff [THEN iffD2])
      then show ?thesis by simp
    qed
    then show ?thesis using m(2) by linarith
  qed
  have lo: "pow2 (- bitlen m) \<le> \<bar>x\<bar>"
  proof -
    have "pow2 (- bitlen m) = 1 / 2 ^ nat (bitlen m)"
      using k by (simp add: pow2_def)
    also have "\<dots> \<le> 1 / q"
      using up q1 by (simp add: frac_le)
    finally show ?thesis by (simp add: x)
  qed
  have hi: "\<bar>x\<bar> < pow2 (- bitlen m + 1)"
  proof (cases "bitlen m = 1")
    case True
    then show ?thesis using ax by (simp add: pow2_def)
  next
    case False
    then have k2: "2 \<le> bitlen m" using k by simp
    have "pow2 (- bitlen m + 1) = 1 / 2 ^ nat (bitlen m - 1)"
      using k2 by (simp add: pow2_def)
    moreover have "1 / q < 1 / 2 ^ nat (bitlen m - 1)"
      using low q1 by (simp add: frac_less2)
    ultimately show ?thesis by (simp add: x)
  qed
  show ?thesis using lo hi e by simp
qed

lemma round_half_even_near: "\<bar>of_int (round_half_even t) - t\<bar> \<le> 1 / 2"
proof -
  have "of_int \<lfloor>t\<rfloor> \<le> t" "t < of_int \<lfloor>t\<rfloor> + 1"
    by linarith+
  then show ?thesis
    by (auto simp: round_half_even_def Let_def)
qed

lemma round_nearest_even_near: "\<bar>round_nearest_even x - x\<bar> \<le> ulp x / 2"
proof (cases "x = 0")
  case True
  then show ?thesis
    using pow2_pos [of "max (bit_exponent x) (- 1022) - 52"]
    by (simp add: round_nearest_even_def ulp_def)
next
  case False
  have u: "0 < ulp x"
    by (simp add: ulp_def pow2_pos)
  define t where "t = \<bar>x\<bar> / ulp x"
  have x: "\<bar>x\<bar> = t * ulp x"
    using u by (simp add: t_def)
  have "round_nearest_even x - x
        = sgn x * (of_int (round_half_even t) * ulp x) - sgn x * \<bar>x\<bar>"
    using False by (simp add: round_nearest_even_def t_def sgn_mult_abs)
  also have "\<dots> = sgn x * ((of_int (round_half_even t) - t) * ulp x)"
    by (simp add: x algebra_simps)
  finally have "\<bar>round_nearest_even x - x\<bar> = \<bar>of_int (round_half_even t) - t\<bar> * ulp x"
    using False u by (simp add: abs_mult abs_sgn_eq)
  also have "\<dots> \<le> 1 / 2 * ulp x"
    using round_half_even_near [of t] u by (intro mult_right_mono) simp_all
  finally show ?thesis by simp
qed

section \<open>A frame without the expected columns\<close>

text \<open>
  Claim C10. When the frame returned by the digital twin lacks the column
  \<^verbatim>\<open>Organ\<close> or the column \<^verbatim>\<open>Microplastic_Count\<close>, the page shows the format
  error and the run stops there: what was shown is the header and that error, the run
  ends at \<^verbatim>\<open>st.stop()\<close>, and neither \<^verbatim>\<open>get_histology_image\<close> nor
  \<^verbatim>\<open>run_cnn_inference\<close> was called.
\<close>

theorem missing_column_stops:
  assumes "''Organ'' \<notin> set (columns burdens_df)
           \<or> ''Microplastic_Count'' \<notin> set (columns burdens_df)"
  shows "histology_analysis e burdens_df =
           ([St_header ''3. Histology Analysis (AI vs Human)'',
             St_error format_error_message], Stopped)
         \<and> filter is_logic_call (fst (histology_analysis e burdens_df)) = []"
  using assms by (auto simp: histology_analysis_def select_burden_def)

theorem missing_column_stops_witness:
  "''Organ'' \<notin> set (columns frame_without_organ)
   \<and> histology_analysis example_env frame_without_organ =
       ([St_header ''3. Histology Analysis (AI vs Human)'',
         St_error format_error_message], Stopped)
   \<and> filter is_logic_call (fst (histology_analysis example_env frame_without_organ)) = []"
proof -
  have h: "''Organ'' \<notin> set (columns frame_without_organ)
           \<or> ''Microplastic_Count'' \<notin> set (columns frame_without_organ)"
    by (simp add: frame_without_organ_def)
  from missing_column_stops [OF h, of example_env] show ?thesis
    by (simp add: frame_without_organ_def)
qed

section \<open>Which burden reaches the histology lookup\<close>

lemma item0_loc:
  "item0 (map (\<lambda>(m, r). r c) (filter fst (zip (map P rs) rs))) =
     (case find P rs of None \<Rightarrow> Inl IndexError | Some r \<Rightarrow> Inr (r c))"
  by (induction rs) (auto simp: item0_def)

lemma organ_lookup_find:
  assumes "''Organ'' \<in> set (columns df)" "''Microplastic_Count'' \<in> set (columns df)"
  shows "organ_lookup df =
     (case first_organ_row df of
        None \<Rightarrow> Inl IndexError
      | Some r \<Rightarrow> py_float (r ''Microplastic_Count''))"
proof -
  have "map (\<lambda>v. v = PyStr target_organ) (map (\<lambda>r. r ''Organ'') (rows df))
        = map (\<lambda>r. r ''Organ'' = PyStr target_organ) (rows df)"
    by simp
  then show ?thesis
    using assms
    by (simp add: organ_lookup_def df_getitem_def df_loc_def bind_exn_def first_organ_row_def
        item0_loc comp_def split: option.splits)
qed

lemma first_row_lookup_hd:
  assumes "''Microplastic_Count'' \<in> set (columns df)" "rows df \<noteq> []"
  shows "first_row_lookup df = py_float (hd (rows df) ''Microplastic_Count'')"
  using assms
  by (cases "rows df") (simp_all add: first_row_lookup_def df_getitem_def bind_exn_def item0_def)

lemma histology_calls_append:
  "histology_calls (xs @ ys) = histology_calls xs @ histology_calls ys"
  by (induction xs rule: histology_calls.induct) simp_all

lemma histology_calls_show_image: "histology_calls (show_image e p b) = []"
  by (simp add: show_image_def split: sum.splits)

lemma histology_calls_report: "histology_calls (fst (report_count h c)) = []"
  by (simp add: report_count_def Let_def split: sum.splits)

lemma histology_calls_counting: "histology_calls (fst (counting_challenge e p)) = []"
  using histology_calls_report [of "human_guess e"]
  by (simp add: counting_challenge_def histology_calls_append split: sum.splits prod.splits)
   (metis fst_conv)

lemma histology_calls_analysis:
  assumes "select_burden df = ([], Inr b)"
  shows "histology_calls (fst (histology_analysis e df)) = [(target_organ, b)]"
  using assms histology_calls_counting [of e]
  by (simp add: histology_analysis_def histology_calls_append histology_calls_show_image
      split: sum.splits prod.splits) (metis fst_conv)

text \<open>
  Claim C8, as the code has it. For a frame with both columns and at least one row:
  when a row has \<^verbatim>\<open>Organ\<close> equal to \<^verbatim>\<open>"Liver"\<close> and \<^verbatim>\<open>float()\<close> converts the
  \<^verbatim>\<open>Microplastic_Count\<close> of the first such row, the float it converts to is the
  burden passed to \<^verbatim>\<open>get_histology_image\<close>, and nothing is shown about it. When
  there is no such row, or the count of the first such row does not convert, the burden
  is the float that \<^verbatim>\<open>float()\<close> makes of the count of the frame's first row, again
  with nothing shown. When the first row's count does not convert either, the
  exception of the fallback is not caught: the run ends with it and
  \<^verbatim>\<open>get_histology_image\<close> is not called. The float of an int count is the nearest
  double, so it differs from the count beyond \<open>2 ^ 53\<close>.
\<close>

theorem burden_of_target_organ:
  assumes "''Organ'' \<in> set (columns df)"
    and "''Microplastic_Count'' \<in> set (columns df)"
    and "rows df \<noteq> []"
  shows "(first_organ_row df = Some r \<and> py_float (r ''Microplastic_Count'') = Inr b
          \<longrightarrow> select_burden df = ([], Inr b)
              \<and> histology_calls (fst (histology_analysis e df)) = [(''Liver'', b)])
       \<and> ((first_organ_row df = None
            \<or> first_organ_row df = Some r \<and> py_float (r ''Microplastic_Count'') = Inl ex)
           \<and> py_float (hd (rows df) ''Microplastic_Count'') = Inr b
          \<longrightarrow> select_burden df = ([], Inr b)
              \<and> histology_calls (fst (histology_analysis e df)) = [(''Liver'', b)])
       \<and> ((first_organ_row df = None
            \<or> first_organ_row df = Some r \<and> py_float (r ''Microplastic_Count'') = Inl ex)
           \<and> py_float (hd (rows df) ''Microplastic_Count'') = Inl ex'
          \<longrightarrow> histology_analysis e df =
                ([St_header ''3. Histology Analysis (AI vs Human)''], Uncaught ex'))"
proof -
  have cols: "''Organ'' \<in> set (columns df) \<and> ''Microplastic_Count'' \<in> set (columns df)"
    using assms by simp
  have lookup: "organ_lookup df =
      (case first_organ_row df of
         None \<Rightarrow> Inl IndexError
       | Some r \<Rightarrow> py_float (r ''Microplastic_Count''))"
    using assms(1,2) by (rule organ_lookup_find)
  have fallback: "first_row_lookup df = py_float (hd (rows df) ''Microplastic_Count'')"
    using assms(2,3) by (rule first_row_lookup_hd)
  have sel: "select_burden df =
      (case organ_lookup df of
         Inr burden \<Rightarrow> ([], Inr burden)
       | Inl _ \<Rightarrow>
           (case first_row_lookup df of
              Inr burden \<Rightarrow> ([], Inr burden)
            | Inl e \<Rightarrow> ([], Inl (Uncaught e))))"
    using cols by (simp add: select_burden_def)
  have direct: "select_burden df = ([], Inr b)"
    if "first_organ_row df = Some r" "py_float (r ''Microplastic_Count'') = Inr b"
    using that by (simp add: sel lookup)
  have failed: "\<exists>x. organ_lookup df = Inl x"
    if "first_organ_row df = None
        \<or> first_organ_row df = Some r \<and> py_float (r ''Microplastic_Count'') = Inl ex"
    using that by (auto simp: lookup)
  have second: "select_burden df = ([], Inr b)"
    if "first_organ_row df = None
        \<or> first_organ_row df = Some r \<and> py_float (r ''Microplastic_Count'') = Inl ex"
      and "py_float (hd (rows df) ''Microplastic_Count'') = Inr b"
    using failed [OF that(1)] that(2) by (auto simp: sel fallback)
  have third: "select_burden df = ([], Inl (Uncaught ex'))"
    if "first_organ_row df = None
        \<or> first_organ_row df = Some r \<and> py_float (r ''Microplastic_Count'') = Inl ex"
      and "py_float (hd (rows df) ''Microplastic_Count'') = Inl ex'"
    using failed [OF that(1)] that(2) by (auto simp: sel fallback)
  have stop: "histology_analysis e df =
      ([St_header ''3. Histology Analysis (AI vs Human)''], Uncaught ex')"
    if "select_burden df = ([], Inl (Uncaught ex'))"
    using that by (simp add: histology_analysis_def)
  have liver: "target_organ = ''Liver''"
    by (simp add: target_organ_def)
  show ?thesis
    using direct second third stop histology_calls_analysis [of df b e] liver
    by metis
qed

theorem burden_of_target_organ_witness:
  "first_organ_row frame_with_liver
     = Some (row_of (PyStr ''Liver'') (PyFloat (Finite (15 / 2))))
   \<and> select_burden frame_with_liver = ([], Inr (Finite (15 / 2)))
   \<and> histology_calls (fst (histology_analysis example_env frame_with_liver))
       = [(''Liver'', Finite (15 / 2))]
   \<and> first_organ_row frame_without_liver = None
   \<and> select_burden frame_without_liver = ([], Inr (Finite 5))
   \<and> histology_calls (fst (histology_analysis example_env frame_without_liver))
       = [(''Liver'', Finite 5)]
   \<and> first_organ_row frame_text_count = None
   \<and> histology_analysis example_env frame_text_count =
       ([St_header ''3. Histology Analysis (AI vs Human)''], Uncaught ValueError)
   \<and> first_organ_row frame_big_count
       = Some (row_of (PyStr ''Liver'') (PyInt 9007199254740993))
   \<and> histology_calls (fst (histology_analysis example_env frame_big_count))
       = [(''Liver'', Finite 9007199254740992)]"
proof -
  have c1: "''Organ'' \<in> set (columns frame_with_liver)"
    and c2: "''Microplastic_Count'' \<in> set (columns frame_with_liver)"
    and c3: "rows frame_with_liver \<noteq> []"
    by (simp_all add: frame_with_liver_def)
  have r: "first_organ_row frame_with_liver
      = Some (row_of (PyStr ''Liver'') (PyFloat (Finite (15 / 2))))"
    by (simp add: first_organ_row_def frame_with_liver_def row_of_def target_organ_def)
  have f: "py_float (row_of (PyStr ''Liver'') (PyFloat (Finite (15 / 2))) ''Microplastic_Count'')
           = Inr (Finite (15 / 2))"
    by (simp add: row_of_def)
  have d1: "''Organ'' \<in> set (columns frame_without_liver)"
    and d2: "''Microplastic_Count'' \<in> set (columns frame_without_liver)"
    and d3: "rows frame_without_liver \<noteq> []"
    by (simp_all add: frame_without_liver_def)
  have n: "first_organ_row frame_without_liver = None"
    by (simp add: first_organ_row_def frame_without_liver_def row_of_def target_organ_def)
  have five: "float_of_int 5 = Inr (Finite 5)"
    by (simp add: float_of_int_def to_double_def round_nearest_even_def ulp_def bit_exponent_def pow2_def
      round_half_even_def compute_bitlen Let_def)
  have g: "py_float (hd (rows frame_without_liver) ''Microplastic_Count'') = Inr (Finite 5)"
    by (simp add: frame_without_liver_def row_of_def five)
  have t1: "''Organ'' \<in> set (columns frame_text_count)"
    and t2: "''Microplastic_Count'' \<in> set (columns frame_text_count)"
    and t3: "rows frame_text_count \<noteq> []"
    by (simp_all add: frame_text_count_def)
  have m: "first_organ_row frame_text_count = None"
    by (simp add: first_organ_row_def frame_text_count_def row_of_def target_organ_def)
  have k: "py_float (hd (rows frame_text_count) ''Microplastic_Count'') = Inl ValueError"
    by (simp add: frame_text_count_def row_of_def)
  have b1: "''Organ'' \<in> set (columns frame_big_count)"
    and b2: "''Microplastic_Count'' \<in> set (columns frame_big_count)"
    and b3: "rows frame_big_count \<noteq> []"
    by (simp_all add: frame_big_count_def)
  have br: "first_organ_row frame_big_count
      = Some (row_of (PyStr ''Liver'') (PyInt 9007199254740993))"
    by (simp add: first_organ_row_def frame_big_count_def row_of_def target_organ_def)
  have big: "float_of_int 9007199254740993 = Inr (Finite 9007199254740992)"
    by (simp add: float_of_int_def to_double_def round_nearest_even_def ulp_def bit_exponent_def pow2_def
      round_half_even_def compute_bitlen Let_def)
  have bf: "py_float (row_of (PyStr ''Liver'') (PyInt 9007199254740993) ''Microplastic_Count'')
           = Inr (Finite 9007199254740992)"
    by (simp add: row_of_def big)
  from burden_of_target_organ [OF c1 c2 c3,
      of "row_of (PyStr ''Liver'') (PyFloat (Finite (15 / 2)))" "Finite (15 / 2)" example_env] r f
  have first: "select_burden frame_with_liver = ([], Inr (Finite (15 / 2)))
       \<and> histology_calls (fst (histology_analysis example_env frame_with_liver))
           = [(''Liver'', Finite (15 / 2))]"
    by simp
  from burden_of_target_organ [OF d1 d2 d3, of _ "Finite 5" example_env] n g
  have second: "select_burden frame_without_liver = ([], Inr (Finite 5))
       \<and> histology_calls (fst (histology_analysis example_env frame_without_liver))
           = [(''Liver'', Finite 5)]"
    by simp
  from burden_of_target_organ [OF t1 t2 t3, of _ _ example_env _ ValueError] m k
  have third: "histology_analysis example_env frame_text_count =
       ([St_header ''3. Histology Analysis (AI vs Human)''], Uncaught ValueError)"
    by simp
  from burden_of_target_organ [OF b1 b2 b3,
      of "row_of (PyStr ''Liver'') (PyInt 9007199254740993)" "Finite 9007199254740992"
      example_env] br bf
  have fourth: "histology_calls (fst (histology_analysis example_env frame_big_count))
           = [(''Liver'', Finite 9007199254740992)]"
    by simp
  from r first n second m third br fourth show ?thesis by simp
qed

text \<open>
  The claim as worded promises the silent fallback for every non-empty frame with the
  two columns. The frame with the single row \<^verbatim>\<open>Organ = "Lung"\<close>,
  \<^verbatim>\<open>Microplastic_Count = "high"\<close> has no liver row, and the fallback of line 91
  raises ValueError inside the handler: no burden is chosen, the run ends with the
  uncaught exception.
\<close>

theorem unconvertible_first_row_counterexample:
  "''Organ'' \<in> set (columns frame_text_count)
   \<and> ''Microplastic_Count'' \<in> set (columns frame_text_count)
   \<and> rows frame_text_count \<noteq> []
   \<and> first_organ_row frame_text_count = None
   \<and> select_burden frame_text_count = ([], Inl (Uncaught ValueError))
   \<and> histology_analysis example_env frame_text_count =
       ([St_header ''3. Histology Analysis (AI vs Human)''], Uncaught ValueError)
   \<and> histology_calls (fst (histology_analysis example_env frame_text_count)) = []"
  by (simp add: frame_text_count_def first_organ_row_def row_of_def target_organ_def
      select_burden_def organ_lookup_def first_row_lookup_def df_getitem_def df_loc_def
      bind_exn_def item0_def histology_analysis_def)

section \<open>What the counting challenge reports\<close>

lemma float_of_int_cases:
  assumes "float_of_int h = Inr hf"
  shows "(\<exists>y. hf = Finite y) \<or> hf = NegZero"
  using assms by (cases "to_double (of_int h)") (auto simp: float_of_int_def)

text \<open>
  Claim C9, as the code has it. When the button is pressed and the CNN returns a
  count \<open>c\<close>, the page writes the guess \<open>h\<close> and the count, then the absolute error
  \<^verbatim>\<open>round(abs(h - c), 2)\<close>, then the success message (with the balloons) if
  \<^verbatim>\<open>abs(h - c) < 5\<close> and the warning otherwise, all as Python computes them. For an
  int count the arithmetic is exact: the value shown is \<open>\<bar>h - c\<bar>\<close> and the success
  message appears if and only if \<open>\<bar>h - c\<bar> < 5\<close>. For a finite float count the error is
  \<open>\<bar>d\<bar>\<close> for the double \<open>d\<close> nearest to \<open>float(h) - c\<close>; the value shown is the double
  nearest to \<open>\<bar>d\<bar>\<close> rounded to two decimals, and the success message appears if and
  only if \<open>\<bar>d\<bar> < 5\<close>; a negative zero counts as zero. For a count that is NaN or
  infinite the error shown is NaN or infinity and the warning appears.
\<close>

theorem absolute_error_shown:
  assumes "button_run_cnn e"
    and "run_cnn_inference e img_path = Inr cnn_count"
  shows "(cnn_count = PyInt c \<longrightarrow>
            counting_challenge e img_path =
              ([St_subheader ''Counting Challenge'', Call_run_cnn_inference img_path,
                St_write_human (human_guess e), St_write_cnn (PyInt c),
                St_error_abs (PyInt \<bar>human_guess e - c\<bar>)]
               @ (if \<bar>human_guess e - c\<bar> < 5
                  then [St_balloons, St_success ''Great job! You are as accurate as the AI.'']
                  else [St_warning
                    ''The CNN detected particles that might be too small for the human eye.'']),
               Finished))
       \<and> (cnn_count = PyFloat (Finite x) \<and> is_double x
           \<and> float_of_int (human_guess e) = Inr (Finite y)
           \<and> to_double (y - x) = Finite d
           \<and> to_double (of_int (round_half_even (\<bar>d\<bar> * 100)) / 100) = Finite s \<longrightarrow>
            counting_challenge e img_path =
              ([St_subheader ''Counting Challenge'', Call_run_cnn_inference img_path,
                St_write_human (human_guess e), St_write_cnn (PyFloat (Finite x)),
                St_error_abs (PyFloat (Finite s))]
               @ (if \<bar>d\<bar> < 5
                  then [St_balloons, St_success ''Great job! You are as accurate as the AI.'']
                  else [St_warning
                    ''The CNN detected particles that might be too small for the human eye.'']),
               Finished))
       \<and> ((cnn_count = PyFloat NaN \<or> cnn_count = PyFloat PosInf \<or> cnn_count = PyFloat NegInf)
           \<and> float_of_int (human_guess e) = Inr hf \<longrightarrow>
            counting_challenge e img_path =
              ([St_subheader ''Counting Challenge'', Call_run_cnn_inference img_path,
                St_write_human (human_guess e), St_write_cnn cnn_count,
                St_error_abs (PyFloat (if cnn_count = PyFloat NaN then NaN else PosInf)),
                St_warning
                  ''The CNN detected particles that might be too small for the human eye.''],
               Finished))
       \<and> (cnn_count = PyFloat NegZero
           \<and> float_of_int (human_guess e) = Inr (Finite y)
           \<and> to_double (of_int (round_half_even (\<bar>y\<bar> * 100)) / 100) = Finite s \<longrightarrow>
            counting_challenge e img_path =
              ([St_subheader ''Counting Challenge'', Call_run_cnn_inference img_path,
                St_write_human (human_guess e), St_write_cnn (PyFloat NegZero),
                St_error_abs (PyFloat (Finite s))]
               @ (if \<bar>y\<bar> < 5
                  then [St_balloons, St_success ''Great job! You are as accurate as the AI.'']
                  else [St_warning
                    ''The CNN detected particles that might be too small for the human eye.'']),
               Finished))"
proof (intro conjI impI)
  assume c: "cnn_count = PyInt c"
  show "counting_challenge e img_path =
              ([St_subheader ''Counting Challenge'', Call_run_cnn_inference img_path,
                St_write_human (human_guess e), St_write_cnn (PyInt c),
                St_error_abs (PyInt \<bar>human_guess e - c\<bar>)]
               @ (if \<bar>human_guess e - c\<bar> < 5
                  then [St_balloons, St_success ''Great job! You are as accurate as the AI.'']
                  else [St_warning
                    ''The CNN detected particles that might be too small for the human eye.'']),
               Finished)"
    using assms c
    by (simp add: counting_challenge_def report_count_def success_message_def
        warning_message_def Let_def)
next
  assume h: "cnn_count = PyFloat (Finite x) \<and> is_double x
           \<and> float_of_int (human_guess e) = Inr (Finite y)
           \<and> to_double (y - x) = Finite d
           \<and> to_double (of_int (round_half_even (\<bar>d\<bar> * 100)) / 100) = Finite s"
  show "counting_challenge e img_path =
              ([St_subheader ''Counting Challenge'', Call_run_cnn_inference img_path,
                St_write_human (human_guess e), St_write_cnn (PyFloat (Finite x)),
                St_error_abs (PyFloat (Finite s))]
               @ (if \<bar>d\<bar> < 5
                  then [St_balloons, St_success ''Great job! You are as accurate as the AI.'']
                  else [St_warning
                    ''The CNN detected particles that might be too small for the human eye.'']),
               Finished)"
    using assms h
    by (simp add: counting_challenge_def report_count_def success_message_def
        warning_message_def Let_def bind_exn_def)
next
  assume h: "(cnn_count = PyFloat NaN \<or> cnn_count = PyFloat PosInf \<or> cnn_count = PyFloat NegInf)
           \<and> float_of_int (human_guess e) = Inr hf"
  then have y: "(\<exists>y. hf = Finite y) \<or> hf = NegZero"
    using float_of_int_cases by blast
  show "counting_challenge e img_path =
              ([St_subheader ''Counting Challenge'', Call_run_cnn_inference img_path,
                St_write_human (human_guess e), St_write_cnn cnn_count,
                St_error_abs (PyFloat (if cnn_count = PyFloat NaN then NaN else PosInf)),
                St_warning
                  ''The CNN detected particles that might be too small for the human eye.''],
               Finished)"
    using assms h y
    by (auto simp: counting_challenge_def report_count_def success_message_def
        warning_message_def Let_def bind_exn_def)
next
  assume h: "cnn_count = PyFloat NegZero
           \<and> float_of_int (human_guess e) = Inr (Finite y)
           \<and> to_double (of_int (round_half_even (\<bar>y\<bar> * 100)) / 100) = Finite s"
  show "counting_challenge e img_path =
              ([St_subheader ''Counting Challenge'', Call_run_cnn_inference img_path,
                St_write_human (human_guess e), St_write_cnn (PyFloat NegZero),
                St_error_abs (PyFloat (Finite s))]
               @ (if \<bar>y\<bar> < 5
                  then [St_balloons, St_success ''Great job! You are as accurate as the AI.'']
                  else [St_warning
                    ''The CNN detected particles that might be too small for the human eye.'']),
               Finished)"
    using assms h
    by (simp add: counting_challenge_def report_count_def success_message_def
        warning_message_def Let_def bind_exn_def)
qed

theorem absolute_error_shown_witness:
  "counting_challenge example_env ''liver_low.png'' =
     ([St_subheader ''Counting Challenge'', Call_run_cnn_inference ''liver_low.png'',
       St_write_human 9, St_write_cnn (PyInt 12), St_error_abs (PyInt 3),
       St_balloons, St_success ''Great job! You are as accurate as the AI.''], Finished)
   \<and> is_double (1 / 2 ^ 60)
   \<and> float_of_int (human_guess env_tiny_count) = Inr (Finite 5)
   \<and> to_double (5 - 1 / 2 ^ 60) = Finite 5
   \<and> counting_challenge env_tiny_count ''liver_low.png'' =
       ([St_subheader ''Counting Challenge'', Call_run_cnn_inference ''liver_low.png'',
         St_write_human 5, St_write_cnn (PyFloat (Finite (1 / 2 ^ 60))),
         St_error_abs (PyFloat (Finite 5)),
         St_warning
           ''The CNN detected particles that might be too small for the human eye.''],
        Finished)"
proof -
  have b: "button_run_cnn example_env"
    and r: "run_cnn_inference example_env ''liver_low.png'' = Inr (PyInt 12)"
    and h: "human_guess example_env = 9"
    by (simp_all add: example_env_def)
  have b': "button_run_cnn env_tiny_count"
    and r': "run_cnn_inference env_tiny_count ''liver_low.png''
             = Inr (PyFloat (Finite (1 / 2 ^ 60)))"
    and h': "human_guess env_tiny_count = 5"
    by (simp_all add: env_tiny_count_def)
  have dbl: "is_double (1 / 2 ^ 60)"
    by (simp add: is_double_def float_of_int_def to_double_def round_nearest_even_def ulp_def bit_exponent_def pow2_def
      round_half_even_def compute_bitlen Let_def)
  have five: "float_of_int 5 = Inr (Finite 5)"
    by (simp add: float_of_int_def to_double_def round_nearest_even_def ulp_def bit_exponent_def pow2_def
      round_half_even_def compute_bitlen Let_def)
  have diff: "to_double (5 - 1 / 2 ^ 60) = Finite 5"
    by (simp add: float_of_int_def to_double_def round_nearest_even_def ulp_def bit_exponent_def pow2_def
      round_half_even_def compute_bitlen Let_def)
  have shown: "to_double (of_int (round_half_even (\<bar>5\<bar> * 100)) / 100) = Finite 5"
    by (simp add: float_of_int_def to_double_def round_nearest_even_def ulp_def bit_exponent_def pow2_def
      round_half_even_def compute_bitlen Let_def)
  from absolute_error_shown [OF b r, of 12]
  have first: "counting_challenge example_env ''liver_low.png'' =
     ([St_subheader ''Counting Challenge'', Call_run_cnn_inference ''liver_low.png'',
       St_write_human 9, St_write_cnn (PyInt 12), St_error_abs (PyInt 3),
       St_balloons, St_success ''Great job! You are as accurate as the AI.''], Finished)"
    by (simp add: h)
  from absolute_error_shown [OF b' r', of _ "1 / 2 ^ 60" 5 5 5] dbl five diff shown
  have second: "counting_challenge env_tiny_count ''liver_low.png'' =
       ([St_subheader ''Counting Challenge'', Call_run_cnn_inference ''liver_low.png'',
         St_write_human 5, St_write_cnn (PyFloat (Finite (1 / 2 ^ 60))),
         St_error_abs (PyFloat (Finite 5)),
         St_warning
           ''The CNN detected particles that might be too small for the human eye.''],
        Finished)"
    by (simp add: h')
  from first dbl five diff second show ?thesis
    by (simp add: h')
qed

text \<open>
  The claim as worded has the shown value equal to \<open>\<bar>h - c\<bar>\<close> for every numeric count.
  With the guess 2 and the float count 2.001953125 every step is exact: the difference
  is 0.001953125, below 5, and the page shows 0.0.
\<close>

theorem rounded_display_counterexample:
  "button_run_cnn env_float_count
   \<and> human_guess env_float_count = 2
   \<and> run_cnn_inference env_float_count ''liver_low.png''
       = Inr (PyFloat (Finite (1025 / 512)))
   \<and> is_double (1025 / 512)
   \<and> counting_challenge env_float_count ''liver_low.png'' =
       ([St_subheader ''Counting Challenge'', Call_run_cnn_inference ''liver_low.png'',
         St_write_human 2, St_write_cnn (PyFloat (Finite (1025 / 512))),
         St_error_abs (PyFloat (Finite 0)),
         St_balloons, St_success ''Great job! You are as accurate as the AI.''], Finished)
   \<and> \<bar>2 - 1025 / 512\<bar> = (1 / 512 :: real)"
  by (simp add: env_float_count_def counting_challenge_def report_count_def
      success_message_def bind_exn_def is_double_def float_of_int_def to_double_def round_nearest_even_def ulp_def bit_exponent_def pow2_def
      round_half_even_def compute_bitlen Let_def)

section \<open>The simulator on zero and on valid input\<close>

lemma valid_totals_iff:
  "valid_totals x \<longleftrightarrow>
     (\<exists>a b c. route_total x Oral = Some a \<and> route_total x Inhalation = Some b
        \<and> route_total x Dermal = Some c \<and> 0 \<le> a \<and> 0 \<le> b \<and> 0 \<le> c)"
  by (auto simp: valid_totals_def all_routes_def split: option.splits)

lemma total_of_nonneg: "valid_totals x \<Longrightarrow> 0 \<le> total_of x r"
  by (cases r) (auto simp: valid_totals_iff total_of_def)

lemma coefficient_nonneg:
  assumes "fractions_nonneg p" "organ \<in> set (organs p)"
  shows "0 \<le> coefficient p r organ"
proof -
  have "list_all (\<lambda>r. case fraction p r organ of None \<Rightarrow> True | Some f \<Rightarrow> 0 \<le> f) all_routes"
    using assms by (simp add: fractions_nonneg_def list_all_iff)
  moreover have "r \<in> set all_routes"
    by (cases r) (simp_all add: all_routes_def)
  ultimately have "case fraction p r organ of None \<Rightarrow> True | Some f \<Rightarrow> 0 \<le> f"
    by (simp add: list_all_iff)
  then show ?thesis
    by (simp add: coefficient_def split: option.splits)
qed

lemma retention_factor_nonneg:
  assumes "fractions_nonneg p" "organ \<in> set (organs p)"
  shows "0 \<le> retention_factor p organ"
proof -
  have "case retention p organ of None \<Rightarrow> True | Some k \<Rightarrow> 0 \<le> k"
    using assms by (simp add: fractions_nonneg_def list_all_iff)
  then show ?thesis
    by (simp add: retention_factor_def split: option.splits)
qed

lemma organ_burden_nonneg:
  assumes "valid_totals x" "fractions_nonneg p" "organ \<in> set (organs p)"
  shows "0 \<le> organ_burden p x organ"
proof -
  have "0 \<le> total_of x r * coefficient p r organ" for r
    using total_of_nonneg [OF assms(1)] coefficient_nonneg [OF assms(2,3)] by simp
  then have "0 \<le> sum_list (map (\<lambda>r. total_of x r * coefficient p r organ) all_routes)"
    by (simp add: all_routes_def)
  then show ?thesis
    using retention_factor_nonneg [OF assms(2,3)] by (simp add: organ_burden_def)
qed

text \<open>
  Claim C3. With a fully specified parameter table, an input whose three route totals
  are all present and all zero is accepted, and the table returned has a burden of
  zero for every organ.
\<close>

theorem zero_exposure_zero_burden:
  assumes "fully_specified p"
    and "route_total x Oral = Some 0"
    and "route_total x Inhalation = Some 0"
    and "route_total x Dermal = Some 0"
  shows "run_digital_twin p (Some x) = Inr (map (\<lambda>organ. (organ, 0)) (organs p))"
proof -
  have v: "valid_totals x"
    using assms(2-4) by (simp add: valid_totals_iff)
  have "total_of x r = 0" for r
    using assms(2-4) by (cases r) (simp_all add: total_of_def)
  then have "organ_burden p x organ = 0" for organ
    by (simp add: organ_burden_def)
  then show ?thesis
    using v assms(1) by (simp add: run_digital_twin_def)
qed

theorem zero_exposure_zero_burden_witness:
  "fully_specified example_params
   \<and> route_total zero_exposure Oral = Some 0
   \<and> route_total zero_exposure Inhalation = Some 0
   \<and> route_total zero_exposure Dermal = Some 0
   \<and> run_digital_twin example_params (Some zero_exposure) = Inr [(''Liver'', 0), (''Lung'', 0)]"
proof -
  have f: "fully_specified example_params"
    by (simp add: fully_specified_def example_params_def all_routes_def del: not_None_eq)
  have a: "route_total zero_exposure Oral = Some 0"
    and b: "route_total zero_exposure Inhalation = Some 0"
    and c: "route_total zero_exposure Dermal = Some 0"
    by (simp_all add: route_total_def zero_exposure_def sum_values_def)
  have o: "organs example_params = [''Liver'', ''Lung'']"
    by (simp add: example_params_def)
  from zero_exposure_zero_burden [OF f a b c] f a b c show ?thesis
    by (simp add: o)
qed

text \<open>
  Claim C4, as the model has it. With a fully specified parameter table whose
  fractions and retention factors are not negative, every valid input (all three route
  totals present and not negative) is accepted and every burden of the table returned
  is at least zero.
\<close>

theorem burdens_nonneg:
  assumes "valid_totals x" and "fully_specified p" and "fractions_nonneg p"
  shows "\<exists>t. run_digital_twin p (Some x) = Inr t \<and> (\<forall>row \<in> set t. 0 \<le> snd row)"
  using assms organ_burden_nonneg [OF assms(1,3)]
  by (auto simp: run_digital_twin_def)

theorem burdens_nonneg_witness:
  "valid_totals scenario_exposure \<and> fully_specified example_params
   \<and> fractions_nonneg example_params
   \<and> run_digital_twin example_params (Some scenario_exposure)
       = Inr [(''Liver'', 45), (''Lung'', 25 / 2)]
   \<and> (\<exists>t. run_digital_twin example_params (Some scenario_exposure) = Inr t
          \<and> list_all (\<lambda>row. 0 \<le> snd row) t)"
proof -
  have v: "valid_totals scenario_exposure"
    by (simp add: valid_totals_def all_routes_def route_total_def scenario_exposure_def
        sum_values_def)
  have f: "fully_specified example_params"
    by (simp add: fully_specified_def example_params_def all_routes_def del: not_None_eq)
  have n: "fractions_nonneg example_params"
    by (simp add: fractions_nonneg_def example_params_def all_routes_def)
  have r: "run_digital_twin example_params (Some scenario_exposure)
       = Inr [(''Liver'', 45), (''Lung'', 25 / 2)]"
    using v f
    by (simp add: run_digital_twin_def)
       (simp add: example_params_def organ_burden_def all_routes_def total_of_def
        route_total_def scenario_exposure_def sum_values_def coefficient_def
        retention_factor_def)
  from burdens_nonneg [OF v f n] v f n r show ?thesis
    by (simp add: list_all_iff)
qed

text \<open>
  Without the condition on the table the claim fails: the simulator checks only that
  the fractions are given. With every fraction one half and the retention factor
  \<open>- 1\<close>, the scenario input (totals 100, 50 and 0) is valid and accepted, and the
  liver's burden is \<open>- 75\<close>.
\<close>

theorem negative_retention_counterexample:
  "valid_totals scenario_exposure
   \<and> fully_specified negative_retention_params
   \<and> run_digital_twin negative_retention_params (Some scenario_exposure)
       = Inr [(''Liver'', - 75)]"
proof -
  have v: "valid_totals scenario_exposure"
    by (simp add: valid_totals_def all_routes_def route_total_def scenario_exposure_def
        sum_values_def)
  have f: "fully_specified negative_retention_params"
    by (simp add: fully_specified_def negative_retention_params_def all_routes_def)
  have r: "run_digital_twin negative_retention_params (Some scenario_exposure)
       = Inr [(''Liver'', - 75)]"
    using v f
    by (simp add: run_digital_twin_def)
       (simp add: negative_retention_params_def organ_burden_def all_routes_def total_of_def
        route_total_def scenario_exposure_def sum_values_def coefficient_def
        retention_factor_def)
  from v f r show ?thesis by simp
qed

end
